theory Spec2Isabelle
  imports Complex_Main
begin

section \<open>The block CDCN normalizer of sphinx2 (blk_cdcn_norm.c)\<close>

text \<open>
  The file holds two C functions: the wrapper \<^verbatim>\<open>block_cdcn_norm\<close>, which opens the
  \<^verbatim>\<open>CDCN_type\<close> structure, and \<^verbatim>\<open>block_actual_cdcn_norm\<close>, which re-estimates every
  frame of an utterance in place.

  Conventions of the embedding.
  \<^item> A C \<^verbatim>\<open>float\<close> is a \<^typ>\<open>real\<close>: arithmetic is exact, there is no rounding, no
    underflow, no NaN. Division by a zero variance, which is infinite or NaN in C, is
    \<open>0\<close> in HOL; the theorems that depend on the value of such a quotient assume
    positive variances. What holds of the exact model only, and not of the rounded
    arithmetic of the machine, is shown on a second model of one frame in IEEE single
    precision (the definitions named \<open>f32_...\<close>).
  \<^item> A C pointer to floats is the memory reached through it: a function from the offset
    (counted in floats) to the value stored there. The functions of the file receive
    bare pointers, so nothing in the model bounds an offset; what lies beyond the end of
    an array is whatever the function holds there.
  \<^item> A parameter declared \<^verbatim>\<open>float a[][NUM_COEFF+1]\<close> is a pointer to rows of
    \<^verbatim>\<open>NUM_COEFF+1\<close> floats laid out one after the other: \<^verbatim>\<open>a[k][j]\<close> is the float
    at offset \<open>k * (NUM_COEFF + 1) + j\<close>.
  \<^item> The macro \<^verbatim>\<open>NUM_COEFF\<close> comes from \<^verbatim>\<open>cdcn.h\<close>; it is a parameter of every
    definition.
  \<^item> Loop counters start at 0 or 1 and only grow, so they are naturals; the bounds
    \<^verbatim>\<open>num_codes\<close> and \<^verbatim>\<open>num_frames\<close> are C ints and stay integers.
\<close>

type_synonym floats = "nat \<Rightarrow> real"

definition cell :: "nat \<Rightarrow> nat \<Rightarrow> nat \<Rightarrow> nat" where
  "cell NUM_COEFF k j = k * (NUM_COEFF + 1) + j"

subsection \<open>The loops over the coefficients\<close>

text \<open>
  Every loop returns the final value of its counter \<open>j\<close> next to what it computes: the
  C function has one variable \<open>j\<close> for all of them, and reads it again after the loops.

  Lines 84-85: \<^verbatim>\<open>for (j = 0; j <= NUM_COEFF; j++) x[j] = 0.0;\<close>
\<close>

function clear_x :: "nat \<Rightarrow> nat \<Rightarrow> floats \<Rightarrow> nat \<times> floats" where
  "clear_x NUM_COEFF j x =
     (if j \<le> NUM_COEFF then clear_x NUM_COEFF (j + 1) (x(j := 0)) else (j, x))"
  by pat_completeness auto
termination
  by (relation "measure (\<lambda>(NUM_COEFF, j, x). NUM_COEFF + 1 - j)") auto

declare clear_x.simps [simp del]

text \<open>
  Lines 89-93, the distance to codeword 0 from coefficient 1 on:
  \<^verbatim>\<open>difference = z[i][j] - tilt[j] - means[0][j] - corrbook[0][j];\<close>
  \<^verbatim>\<open>distance += difference*difference / variance[0][j];\<close>
\<close>

function distance0_loop ::
  "nat \<Rightarrow> floats \<Rightarrow> floats \<Rightarrow> floats \<Rightarrow> floats \<Rightarrow> floats \<Rightarrow> nat \<Rightarrow> nat \<Rightarrow> real \<Rightarrow> nat \<times> real"
where
  "distance0_loop NUM_COEFF variance tilt means corrbook z i j distance =
     (if j \<le> NUM_COEFF then
        (let difference = z (cell NUM_COEFF i j) - tilt j - means (cell NUM_COEFF 0 j)
                            - corrbook (cell NUM_COEFF 0 j)
         in distance0_loop NUM_COEFF variance tilt means corrbook z i (j + 1)
              (distance + difference * difference / variance (cell NUM_COEFF 0 j)))
      else (j, distance))"
  by pat_completeness auto
termination
  by (relation "measure (\<lambda>(NUM_COEFF, variance, tilt, means, corrbook, z, i, j, distance).
        NUM_COEFF + 1 - j)") auto

declare distance0_loop.simps [simp del]

text \<open>
  Lines 103-107, the distance to codeword \<open>k\<close> from coefficient 1 on (the operands are
  subtracted in another order than for codeword 0):
  \<^verbatim>\<open>difference = z[i][j] - tilt[j] - corrbook[k][j] - means[k][j];\<close>
  \<^verbatim>\<open>distance += difference*difference / variance[k][j];\<close>
\<close>

function distance_loop ::
  "nat \<Rightarrow> floats \<Rightarrow> floats \<Rightarrow> floats \<Rightarrow> floats \<Rightarrow> floats \<Rightarrow> nat \<Rightarrow> nat \<Rightarrow> nat \<Rightarrow> real
     \<Rightarrow> nat \<times> real"
where
  "distance_loop NUM_COEFF variance tilt means corrbook z i k j distance =
     (if j \<le> NUM_COEFF then
        (let difference = z (cell NUM_COEFF i j) - tilt j - corrbook (cell NUM_COEFF k j)
                            - means (cell NUM_COEFF k j)
         in distance_loop NUM_COEFF variance tilt means corrbook z i k (j + 1)
              (distance + difference * difference / variance (cell NUM_COEFF k j)))
      else (j, distance))"
  by pat_completeness auto
termination
  by (relation "measure (\<lambda>(NUM_COEFF, variance, tilt, means, corrbook, z, i, k, j, distance).
        NUM_COEFF + 1 - j)") auto

declare distance_loop.simps [simp del]

text \<open>
  Lines 109-110:
  \<^verbatim>\<open>for (j = 0; j <= NUM_COEFF; j++) x[j] += (z[i][j] - tilt[j] - corrbook[k][j]) * fk;\<close>
\<close>

function add_x ::
  "nat \<Rightarrow> floats \<Rightarrow> floats \<Rightarrow> floats \<Rightarrow> nat \<Rightarrow> nat \<Rightarrow> real \<Rightarrow> nat \<Rightarrow> floats \<Rightarrow> nat \<times> floats"
where
  "add_x NUM_COEFF tilt corrbook z i k fk j x =
     (if j \<le> NUM_COEFF then
        add_x NUM_COEFF tilt corrbook z i k fk (j + 1)
          (x(j := x j + (z (cell NUM_COEFF i j) - tilt j - corrbook (cell NUM_COEFF k j)) * fk))
      else (j, x))"
  by pat_completeness auto
termination
  by (relation "measure (\<lambda>(NUM_COEFF, tilt, corrbook, z, i, k, fk, j, x). NUM_COEFF + 1 - j)")
    auto

declare add_x.simps [simp del]

text \<open>
  Lines 118-119: \<^verbatim>\<open>for (j = 0; j <= NUM_COEFF; j++) z[i][j] = x[j]/den;\<close>
\<close>

function divide_x :: "nat \<Rightarrow> floats \<Rightarrow> real \<Rightarrow> nat \<Rightarrow> nat \<Rightarrow> floats \<Rightarrow> nat \<times> floats" where
  "divide_x NUM_COEFF x den i j z =
     (if j \<le> NUM_COEFF then
        divide_x NUM_COEFF x den i (j + 1) (z(cell NUM_COEFF i j := x j / den))
      else (j, z))"
  by pat_completeness auto
termination
  by (relation "measure (\<lambda>(NUM_COEFF, x, den, i, j, z). NUM_COEFF + 1 - j)") auto

declare divide_x.simps [simp del]

subsection \<open>One codeword\<close>

text \<open>
  Lines 87-94: the distance of frame \<open>i\<close> to codeword 0 and its weight. The result is
  the counter \<open>j\<close>, \<^verbatim>\<open>distance\<close> and \<^verbatim>\<open>fk\<close>. The argument of \<^verbatim>\<open>exp\<close> is
  \<^verbatim>\<open>(double) - distance / 2\<close>: the cast binds first, so it is \<open>(- distance) / 2\<close>.
\<close>

definition first_codeword ::
  "nat \<Rightarrow> floats \<Rightarrow> floats \<Rightarrow> floats \<Rightarrow> floats \<Rightarrow> floats \<Rightarrow> floats \<Rightarrow> nat \<Rightarrow> nat \<times> real \<times> real"
where
  "first_codeword NUM_COEFF variance prob tilt means corrbook z i =
     (let difference = z (cell NUM_COEFF i 0) - means (cell NUM_COEFF 0 0)
                         - corrbook (cell NUM_COEFF 0 0) - tilt 0;
          distance = difference * difference / variance (cell NUM_COEFF 0 0);
          (j, distance) = distance0_loop NUM_COEFF variance tilt means corrbook z i 1 distance;
          fk = exp (- distance / 2) * prob 0
      in (j, distance, fk))"

text \<open>Lines 101-108: the same for codeword \<open>k\<close> inside the loop over the codewords.\<close>

definition codeword ::
  "nat \<Rightarrow> floats \<Rightarrow> floats \<Rightarrow> floats \<Rightarrow> floats \<Rightarrow> floats \<Rightarrow> floats \<Rightarrow> nat \<Rightarrow> nat
     \<Rightarrow> nat \<times> real \<times> real"
where
  "codeword NUM_COEFF variance prob tilt means corrbook z i k =
     (let difference = z (cell NUM_COEFF i 0) - means (cell NUM_COEFF k 0)
                         - corrbook (cell NUM_COEFF k 0) - tilt 0;
          distance = difference * difference / variance (cell NUM_COEFF k 0);
          (j, distance) = distance_loop NUM_COEFF variance tilt means corrbook z i k 1 distance;
          fk = exp (- distance / 2) * prob k
      in (j, distance, fk))"

text \<open>
  What the function computes for codeword \<open>k\<close> of frame \<open>i\<close>: lines 87-94 serve
  codeword 0, and the loop of line 98, which starts at \<open>k = 1\<close>, serves the others with
  lines 101-108.
\<close>

definition computed ::
  "nat \<Rightarrow> floats \<Rightarrow> floats \<Rightarrow> floats \<Rightarrow> floats \<Rightarrow> floats \<Rightarrow> floats \<Rightarrow> nat \<Rightarrow> nat
     \<Rightarrow> nat \<times> real \<times> real"
where
  "computed NUM_COEFF variance prob tilt means corrbook z i k =
     (if k = 0 then first_codeword NUM_COEFF variance prob tilt means corrbook z i
      else codeword NUM_COEFF variance prob tilt means corrbook z i k)"

subsection \<open>The loop over the codewords and the frame\<close>

text \<open>
  Lines 98-112: \<^verbatim>\<open>for (k = 1; k < num_codes; k++)\<close>. The state is the counter \<open>j\<close>, the
  vector \<open>x\<close> and \<^verbatim>\<open>den\<close>.
\<close>

function codewords ::
  "nat \<Rightarrow> floats \<Rightarrow> floats \<Rightarrow> floats \<Rightarrow> floats \<Rightarrow> floats \<Rightarrow> int \<Rightarrow> floats \<Rightarrow> nat \<Rightarrow> nat
     \<Rightarrow> nat \<times> floats \<times> real \<Rightarrow> nat \<times> floats \<times> real"
where
  "codewords NUM_COEFF variance prob tilt means corrbook num_codes z i k (j, x, den) =
     (if int k < num_codes then
        (let (j, distance, fk) = codeword NUM_COEFF variance prob tilt means corrbook z i k;
             (j, x) = add_x NUM_COEFF tilt corrbook z i k fk 0 x;
             den = den + fk
         in codewords NUM_COEFF variance prob tilt means corrbook num_codes z i (k + 1)
              (j, x, den))
      else (j, x, den))"
  by pat_completeness auto
termination
  by (relation "measure (\<lambda>(NUM_COEFF, variance, prob, tilt, means, corrbook, num_codes, z, i,
        k, s). nat num_codes - k)") auto

declare codewords.simps [simp del]

text \<open>
  Lines 84-112: what one iteration of the loop over the frames computes before it
  writes: the counter \<open>j\<close>, the numerator \<open>x\<close> and the denominator \<^verbatim>\<open>den\<close>. The array
  \<open>x\<close> is one automatic array for the whole call; the iteration receives it as the
  previous frame left it.
\<close>

definition accumulate ::
  "nat \<Rightarrow> floats \<Rightarrow> floats \<Rightarrow> floats \<Rightarrow> floats \<Rightarrow> floats \<Rightarrow> int \<Rightarrow> floats \<Rightarrow> nat \<Rightarrow> floats
     \<Rightarrow> nat \<times> floats \<times> real"
where
  "accumulate NUM_COEFF variance prob tilt means corrbook num_codes z i x =
     (let (j, x) = clear_x NUM_COEFF 0 x;
          (j, distance, fk) = first_codeword NUM_COEFF variance prob tilt means corrbook z i;
          den = fk
      in codewords NUM_COEFF variance prob tilt means corrbook num_codes z i 1 (j, x, den))"

text \<open>
  Lines 117-121: the frame is overwritten when \<^verbatim>\<open>den != 0\<close>; otherwise the single
  statement \<^verbatim>\<open>z[i][j] -= tilt[j];\<close> runs with the value the loops left in \<open>j\<close>.
\<close>

definition write_back ::
  "nat \<Rightarrow> floats \<Rightarrow> nat \<Rightarrow> nat \<times> floats \<times> real \<Rightarrow> floats \<Rightarrow> floats"
where
  "write_back NUM_COEFF tilt i s z =
     (case s of (j, x, den) \<Rightarrow>
        if den \<noteq> 0 then snd (divide_x NUM_COEFF x den i 0 z)
        else z(cell NUM_COEFF i j := z (cell NUM_COEFF i j) - tilt j))"

text \<open>Lines 82-126: the body of the loop over the frames, on the pair of \<open>z\<close> and \<open>x\<close>.\<close>

definition frame ::
  "nat \<Rightarrow> floats \<Rightarrow> floats \<Rightarrow> floats \<Rightarrow> floats \<Rightarrow> floats \<Rightarrow> int \<Rightarrow> nat \<Rightarrow> floats \<times> floats
     \<Rightarrow> floats \<times> floats"
where
  "frame NUM_COEFF variance prob tilt means corrbook num_codes i zx =
     (case zx of (z, x) \<Rightarrow>
        (let s = accumulate NUM_COEFF variance prob tilt means corrbook num_codes z i x
         in (write_back NUM_COEFF tilt i s z, fst (snd s))))"

text \<open>Line 81: \<^verbatim>\<open>for (i = 0; i < num_frames; i++)\<close>.\<close>

function frames ::
  "nat \<Rightarrow> floats \<Rightarrow> floats \<Rightarrow> floats \<Rightarrow> floats \<Rightarrow> floats \<Rightarrow> int \<Rightarrow> int \<Rightarrow> nat \<Rightarrow> floats \<times> floats
     \<Rightarrow> floats \<times> floats"
where
  "frames NUM_COEFF variance prob tilt means corrbook num_codes num_frames i zx =
     (if int i < num_frames then
        frames NUM_COEFF variance prob tilt means corrbook num_codes num_frames (i + 1)
          (frame NUM_COEFF variance prob tilt means corrbook num_codes i zx)
      else zx)"
  by pat_completeness auto
termination
  by (relation "measure (\<lambda>(NUM_COEFF, variance, prob, tilt, means, corrbook, num_codes,
        num_frames, i, zx). nat num_frames - i)") auto

declare frames.simps [simp del]

subsection \<open>The formulas of the specification\<close>

text \<open>
  The distance and the weight as the specification writes them:
  \<open>distance_k = \<Sum>_j (z[j] - tilt[j] - mean[k][j] - correction[k][j])^2 / variance[k][j]\<close>
  and \<open>fk_k = exp (- distance_k / 2) * prior[k]\<close>.
\<close>

definition spec_distance ::
  "nat \<Rightarrow> floats \<Rightarrow> floats \<Rightarrow> floats \<Rightarrow> floats \<Rightarrow> floats \<Rightarrow> nat \<Rightarrow> nat \<Rightarrow> real"
where
  "spec_distance NUM_COEFF variance tilt means corrbook z i k =
     (\<Sum>j = 0..NUM_COEFF.
        (z (cell NUM_COEFF i j) - tilt j - means (cell NUM_COEFF k j)
           - corrbook (cell NUM_COEFF k j))\<^sup>2 / variance (cell NUM_COEFF k j))"

definition spec_fk ::
  "nat \<Rightarrow> floats \<Rightarrow> floats \<Rightarrow> floats \<Rightarrow> floats \<Rightarrow> floats \<Rightarrow> floats \<Rightarrow> nat \<Rightarrow> nat \<Rightarrow> real"
where
  "spec_fk NUM_COEFF variance prob tilt means corrbook z i k =
     exp (- spec_distance NUM_COEFF variance tilt means corrbook z i k / 2) * prob k"

subsection \<open>One frame in IEEE single precision\<close>

text \<open>
  The values of an IEEE format: the finite ones by their real value, the two infinities
  and NaN. The sign of a zero and the payload of a NaN are not kept.
\<close>

datatype ieee = Finite real | PlusInf | MinusInf | NaN

text \<open>Rounding to the nearest integer, a tie going to the even one.\<close>

definition rne :: "real \<Rightarrow> int" where
  "rne y =
     (let f = \<lfloor>y\<rfloor> in
      if y - of_int f < 1 / 2 then f
      else if 1 / 2 < y - of_int f then f + 1
      else if even f then f else f + 1)"

text \<open>
  Rounding a real to the format with \<open>p\<close> significant bits and exponents from \<open>emin\<close>
  up to below \<open>emax\<close>, to nearest with ties to even: the unit in the last place is that
  of the binade of \<open>x\<close>, or of the subnormals below \<open>2\<^sup>e\<^sup>m\<^sup>i\<^sup>n\<close>; a rounded magnitude
  of \<open>2\<^sup>e\<^sup>m\<^sup>a\<^sup>x\<close> or more overflows to the infinity of the sign. \<^verbatim>\<open>float\<close> is the format
  \<open>(24, -126, 128)\<close>, \<^verbatim>\<open>double\<close> is \<open>(53, -1022, 1024)\<close>.
\<close>

definition round_ieee :: "nat \<Rightarrow> int \<Rightarrow> int \<Rightarrow> real \<Rightarrow> ieee" where
  "round_ieee p emin emax x =
     (if x = 0 then Finite 0
      else
        (let e = max \<lfloor>log 2 \<bar>x\<bar>\<rfloor> emin;
             u = 2 powi (e - (int p - 1));
             r = of_int (rne (x / u)) * u
         in if 2 powi emax \<le> \<bar>r\<bar> then (if 0 < x then PlusInf else MinusInf) else Finite r))"

definition round32 :: "real \<Rightarrow> ieee" where
  "round32 = round_ieee 24 (- 126) 128"

definition round64 :: "real \<Rightarrow> ieee" where
  "round64 = round_ieee 53 (- 1022) 1024"


text \<open>
  The operations on two values of a format, the exact result rounded by \<open>rnd\<close>, with
  the IEEE results on infinities and NaN. A zero has no sign here, so \<open>x / 0\<close> takes
  the sign of \<open>x\<close>.
\<close>

fun fneg :: "ieee \<Rightarrow> ieee" where
  "fneg (Finite x) = Finite (- x)"
| "fneg PlusInf = MinusInf"
| "fneg MinusInf = PlusInf"
| "fneg NaN = NaN"

fun fadd :: "(real \<Rightarrow> ieee) \<Rightarrow> ieee \<Rightarrow> ieee \<Rightarrow> ieee" where
  "fadd rnd (Finite x) (Finite y) = rnd (x + y)"
| "fadd rnd NaN b = NaN"
| "fadd rnd a NaN = NaN"
| "fadd rnd PlusInf MinusInf = NaN"
| "fadd rnd MinusInf PlusInf = NaN"
| "fadd rnd PlusInf b = PlusInf"
| "fadd rnd a PlusInf = PlusInf"
| "fadd rnd MinusInf b = MinusInf"
| "fadd rnd a MinusInf = MinusInf"

definition fsub :: "(real \<Rightarrow> ieee) \<Rightarrow> ieee \<Rightarrow> ieee \<Rightarrow> ieee" where
  "fsub rnd a b = fadd rnd a (fneg b)"

fun fmul :: "(real \<Rightarrow> ieee) \<Rightarrow> ieee \<Rightarrow> ieee \<Rightarrow> ieee" where
  "fmul rnd (Finite x) (Finite y) = rnd (x * y)"
| "fmul rnd NaN b = NaN"
| "fmul rnd a NaN = NaN"
| "fmul rnd (Finite x) b = (if x = 0 then NaN else if 0 < x then b else fneg b)"
| "fmul rnd a (Finite y) = (if y = 0 then NaN else if 0 < y then a else fneg a)"
| "fmul rnd PlusInf b = b"
| "fmul rnd MinusInf b = fneg b"

fun fdiv :: "(real \<Rightarrow> ieee) \<Rightarrow> ieee \<Rightarrow> ieee \<Rightarrow> ieee" where
  "fdiv rnd (Finite x) (Finite y) =
     (if y = 0 then (if x = 0 then NaN else if 0 < x then PlusInf else MinusInf)
      else rnd (x / y))"
| "fdiv rnd NaN b = NaN"
| "fdiv rnd a NaN = NaN"
| "fdiv rnd (Finite x) b = Finite 0"
| "fdiv rnd a (Finite y) = (if 0 \<le> y then a else fneg a)"
| "fdiv rnd a b = NaN"

text \<open>
  \<^verbatim>\<open>exp\<close> of \<^verbatim>\<open>math.h\<close> on a \<^verbatim>\<open>double\<close>, taken as correctly rounded on finite
  arguments; \<open>exp (-\<infinity>) = 0\<close> and \<open>exp (+\<infinity>) = +\<infinity>\<close> are exact. Then the
  conversion of a \<^verbatim>\<open>double\<close> to \<^verbatim>\<open>float\<close> that an assignment makes.
\<close>

fun dexp :: "ieee \<Rightarrow> ieee" where
  "dexp (Finite x) = round64 (exp x)"
| "dexp PlusInf = PlusInf"
| "dexp MinusInf = Finite 0"
| "dexp NaN = NaN"

fun to_float :: "ieee \<Rightarrow> ieee" where
  "to_float (Finite x) = round32 x"
| "to_float v = v"

text \<open>
  The statements of lines 84-121 once more, every \<^verbatim>\<open>float\<close> operation rounded to
  single precision as it is made. Memory is as before, with a value of the format in
  each cell.
\<close>

type_synonym floats32 = "nat \<Rightarrow> ieee"

function f32_clear_x :: "nat \<Rightarrow> nat \<Rightarrow> floats32 \<Rightarrow> nat \<times> floats32" where
  "f32_clear_x NUM_COEFF j x =
     (if j \<le> NUM_COEFF then f32_clear_x NUM_COEFF (j + 1) (x(j := Finite 0)) else (j, x))"
  by pat_completeness auto
termination
  by (relation "measure (\<lambda>(NUM_COEFF, j, x). NUM_COEFF + 1 - j)") auto

declare f32_clear_x.simps [simp del]

function f32_distance0_loop ::
  "nat \<Rightarrow> floats32 \<Rightarrow> floats32 \<Rightarrow> floats32 \<Rightarrow> floats32 \<Rightarrow> floats32 \<Rightarrow> nat \<Rightarrow> nat \<Rightarrow> ieee
     \<Rightarrow> nat \<times> ieee"
where
  "f32_distance0_loop NUM_COEFF variance tilt means corrbook z i j distance =
     (if j \<le> NUM_COEFF then
        (let difference =
               fsub round32
                 (fsub round32 (fsub round32 (z (cell NUM_COEFF i j)) (tilt j))
                    (means (cell NUM_COEFF 0 j)))
                 (corrbook (cell NUM_COEFF 0 j))
         in f32_distance0_loop NUM_COEFF variance tilt means corrbook z i (j + 1)
              (fadd round32 distance
                 (fdiv round32 (fmul round32 difference difference)
                    (variance (cell NUM_COEFF 0 j)))))
      else (j, distance))"
  by pat_completeness auto
termination
  by (relation "measure (\<lambda>(NUM_COEFF, variance, tilt, means, corrbook, z, i, j, distance).
        NUM_COEFF + 1 - j)") auto

declare f32_distance0_loop.simps [simp del]

function f32_distance_loop ::
  "nat \<Rightarrow> floats32 \<Rightarrow> floats32 \<Rightarrow> floats32 \<Rightarrow> floats32 \<Rightarrow> floats32 \<Rightarrow> nat \<Rightarrow> nat \<Rightarrow> nat \<Rightarrow> ieee
     \<Rightarrow> nat \<times> ieee"
where
  "f32_distance_loop NUM_COEFF variance tilt means corrbook z i k j distance =
     (if j \<le> NUM_COEFF then
        (let difference =
               fsub round32
                 (fsub round32 (fsub round32 (z (cell NUM_COEFF i j)) (tilt j))
                    (corrbook (cell NUM_COEFF k j)))
                 (means (cell NUM_COEFF k j))
         in f32_distance_loop NUM_COEFF variance tilt means corrbook z i k (j + 1)
              (fadd round32 distance
                 (fdiv round32 (fmul round32 difference difference)
                    (variance (cell NUM_COEFF k j)))))
      else (j, distance))"
  by pat_completeness auto
termination
  by (relation "measure (\<lambda>(NUM_COEFF, variance, tilt, means, corrbook, z, i, k, j, distance).
        NUM_COEFF + 1 - j)") auto

declare f32_distance_loop.simps [simp del]

function f32_add_x ::
  "nat \<Rightarrow> floats32 \<Rightarrow> floats32 \<Rightarrow> floats32 \<Rightarrow> nat \<Rightarrow> nat \<Rightarrow> ieee \<Rightarrow> nat \<Rightarrow> floats32
     \<Rightarrow> nat \<times> floats32"
where
  "f32_add_x NUM_COEFF tilt corrbook z i k fk j x =
     (if j \<le> NUM_COEFF then
        f32_add_x NUM_COEFF tilt corrbook z i k fk (j + 1)
          (x(j := fadd round32 (x j)
                    (fmul round32
                       (fsub round32 (fsub round32 (z (cell NUM_COEFF i j)) (tilt j))
                          (corrbook (cell NUM_COEFF k j)))
                       fk)))
      else (j, x))"
  by pat_completeness auto
termination
  by (relation "measure (\<lambda>(NUM_COEFF, tilt, corrbook, z, i, k, fk, j, x). NUM_COEFF + 1 - j)")
    auto

declare f32_add_x.simps [simp del]

function f32_divide_x ::
  "nat \<Rightarrow> floats32 \<Rightarrow> ieee \<Rightarrow> nat \<Rightarrow> nat \<Rightarrow> floats32 \<Rightarrow> nat \<times> floats32"
where
  "f32_divide_x NUM_COEFF x den i j z =
     (if j \<le> NUM_COEFF then
        f32_divide_x NUM_COEFF x den i (j + 1)
          (z(cell NUM_COEFF i j := fdiv round32 (x j) den))
      else (j, z))"
  by pat_completeness auto
termination
  by (relation "measure (\<lambda>(NUM_COEFF, x, den, i, j, z). NUM_COEFF + 1 - j)") auto

declare f32_divide_x.simps [simp del]

text \<open>
  Lines 94 and 108, \<^verbatim>\<open>fk = exp ((double) - distance / 2) * prob[k]\<close>: the negated
  distance is converted to \<^verbatim>\<open>double\<close>, halved, \<^verbatim>\<open>exp\<close> is taken and multiplied by the
  prior in \<^verbatim>\<open>double\<close>, and the assignment converts the product to \<^verbatim>\<open>float\<close>.
\<close>

definition f32_fk :: "ieee \<Rightarrow> ieee \<Rightarrow> ieee" where
  "f32_fk distance p =
     to_float (fmul round64 (dexp (fdiv round64 (fneg distance) (Finite 2))) p)"

definition f32_first_codeword ::
  "nat \<Rightarrow> floats32 \<Rightarrow> floats32 \<Rightarrow> floats32 \<Rightarrow> floats32 \<Rightarrow> floats32 \<Rightarrow> floats32 \<Rightarrow> nat
     \<Rightarrow> nat \<times> ieee \<times> ieee"
where
  "f32_first_codeword NUM_COEFF variance prob tilt means corrbook z i =
     (let difference =
            fsub round32
              (fsub round32 (fsub round32 (z (cell NUM_COEFF i 0)) (means (cell NUM_COEFF 0 0)))
                 (corrbook (cell NUM_COEFF 0 0)))
              (tilt 0);
          distance = fdiv round32 (fmul round32 difference difference)
                       (variance (cell NUM_COEFF 0 0));
          (j, distance) =
            f32_distance0_loop NUM_COEFF variance tilt means corrbook z i 1 distance;
          fk = f32_fk distance (prob 0)
      in (j, distance, fk))"

definition f32_codeword ::
  "nat \<Rightarrow> floats32 \<Rightarrow> floats32 \<Rightarrow> floats32 \<Rightarrow> floats32 \<Rightarrow> floats32 \<Rightarrow> floats32 \<Rightarrow> nat \<Rightarrow> nat
     \<Rightarrow> nat \<times> ieee \<times> ieee"
where
  "f32_codeword NUM_COEFF variance prob tilt means corrbook z i k =
     (let difference =
            fsub round32
              (fsub round32 (fsub round32 (z (cell NUM_COEFF i 0)) (means (cell NUM_COEFF k 0)))
                 (corrbook (cell NUM_COEFF k 0)))
              (tilt 0);
          distance = fdiv round32 (fmul round32 difference difference)
                       (variance (cell NUM_COEFF k 0));
          (j, distance) =
            f32_distance_loop NUM_COEFF variance tilt means corrbook z i k 1 distance;
          fk = f32_fk distance (prob k)
      in (j, distance, fk))"

function f32_codewords ::
  "nat \<Rightarrow> floats32 \<Rightarrow> floats32 \<Rightarrow> floats32 \<Rightarrow> floats32 \<Rightarrow> floats32 \<Rightarrow> int \<Rightarrow> floats32 \<Rightarrow> nat
     \<Rightarrow> nat \<Rightarrow> nat \<times> floats32 \<times> ieee \<Rightarrow> nat \<times> floats32 \<times> ieee"
where
  "f32_codewords NUM_COEFF variance prob tilt means corrbook num_codes z i k (j, x, den) =
     (if int k < num_codes then
        (let (j, distance, fk) =
               f32_codeword NUM_COEFF variance prob tilt means corrbook z i k;
             (j, x) = f32_add_x NUM_COEFF tilt corrbook z i k fk 0 x;
             den = fadd round32 den fk
         in f32_codewords NUM_COEFF variance prob tilt means corrbook num_codes z i (k + 1)
              (j, x, den))
      else (j, x, den))"
  by pat_completeness auto
termination
  by (relation "measure (\<lambda>(NUM_COEFF, variance, prob, tilt, means, corrbook, num_codes, z, i,
        k, s). nat num_codes - k)") auto

declare f32_codewords.simps [simp del]

definition f32_accumulate ::
  "nat \<Rightarrow> floats32 \<Rightarrow> floats32 \<Rightarrow> floats32 \<Rightarrow> floats32 \<Rightarrow> floats32 \<Rightarrow> int \<Rightarrow> floats32 \<Rightarrow> nat
     \<Rightarrow> floats32 \<Rightarrow> nat \<times> floats32 \<times> ieee"
where
  "f32_accumulate NUM_COEFF variance prob tilt means corrbook num_codes z i x =
     (let (j, x) = f32_clear_x NUM_COEFF 0 x;
          (j, distance, fk) =
            f32_first_codeword NUM_COEFF variance prob tilt means corrbook z i;
          den = fk
      in f32_codewords NUM_COEFF variance prob tilt means corrbook num_codes z i 1
           (j, x, den))"

text \<open>Lines 117-121; in C a NaN is \<^verbatim>\<open>!= 0\<close>.\<close>

definition f32_write_back ::
  "nat \<Rightarrow> floats32 \<Rightarrow> nat \<Rightarrow> nat \<times> floats32 \<times> ieee \<Rightarrow> floats32 \<Rightarrow> floats32"
where
  "f32_write_back NUM_COEFF tilt i s z =
     (case s of (j, x, den) \<Rightarrow>
        if den \<noteq> Finite 0 then snd (f32_divide_x NUM_COEFF x den i 0 z)
        else z(cell NUM_COEFF i j := fsub round32 (z (cell NUM_COEFF i j)) (tilt j)))"

definition f32_frame ::
  "nat \<Rightarrow> floats32 \<Rightarrow> floats32 \<Rightarrow> floats32 \<Rightarrow> floats32 \<Rightarrow> floats32 \<Rightarrow> int \<Rightarrow> nat
     \<Rightarrow> floats32 \<times> floats32 \<Rightarrow> floats32 \<times> floats32"
where
  "f32_frame NUM_COEFF variance prob tilt means corrbook num_codes i zx =
     (case zx of (z, x) \<Rightarrow>
        (let s = f32_accumulate NUM_COEFF variance prob tilt means corrbook num_codes z i x
         in (f32_write_back NUM_COEFF tilt i s z, fst (snd s))))"

subsection \<open>The two functions of the file\<close>

text \<open>
  \<^verbatim>\<open>block_actual_cdcn_norm\<close>, lines 58-127. The result is the memory behind \<open>z\<close> after
  the call. The automatic array \<open>x\<close> is not initialised at its declaration; the model
  starts it at zero, and \<open>clear_x\<close> overwrites the cells \<open>0..NUM_COEFF\<close>, the only ones
  used, before any of them is read.
\<close>

definition block_actual_cdcn_norm ::
  "nat \<Rightarrow> floats \<Rightarrow> floats \<Rightarrow> floats \<Rightarrow> floats \<Rightarrow> floats \<Rightarrow> floats \<Rightarrow> int \<Rightarrow> floats \<Rightarrow> int
     \<Rightarrow> floats"
where
  "block_actual_cdcn_norm NUM_COEFF variance prob tilt noise means corrbook num_codes z
       num_frames =
     fst (frames NUM_COEFF variance prob tilt means corrbook num_codes num_frames 0
            (z, \<lambda>j. 0))"

text \<open>
  The fields of \<^verbatim>\<open>CDCN_type\<close> that the wrapper reads (the structure itself is declared
  in \<^verbatim>\<open>cdcn.h\<close>).
\<close>

record CDCN_type =
  run_cdcn :: int
  firstcall :: int
  variance :: floats
  probs :: floats
  tilt :: floats
  noise :: floats
  means :: floats
  corrbook :: floats
  num_codes :: int

text \<open>
  \<^verbatim>\<open>block_cdcn_norm\<close>, lines 9-47: the two early returns, then the call with the fields
  of the structure.
\<close>

definition block_cdcn_norm :: "nat \<Rightarrow> floats \<Rightarrow> int \<Rightarrow> CDCN_type \<Rightarrow> floats" where
  "block_cdcn_norm NUM_COEFF z num_frames cdcn_variables =
     (if run_cdcn cdcn_variables = 0 then z
      else if firstcall cdcn_variables \<noteq> 0 then z
      else block_actual_cdcn_norm NUM_COEFF (variance cdcn_variables) (probs cdcn_variables)
             (tilt cdcn_variables) (noise cdcn_variables) (means cdcn_variables)
             (corrbook cdcn_variables) (num_codes cdcn_variables) z num_frames)"

section \<open>What the loops compute\<close>

text \<open>
  Each loop in closed form, by induction along its own recursion. The counter \<open>j\<close> leaves
  every loop over the coefficients at \<open>NUM_COEFF + 1\<close>.
\<close>

lemma clear_x_eq:
  "clear_x N j x = (max j (N + 1), \<lambda>m. if j \<le> m \<and> m \<le> N then 0 else x m)"
proof (induction N j x rule: clear_x.induct)
  case (1 N j x)
  show ?case
  proof (cases "j \<le> N")
    case True
    have "clear_x N j x = clear_x N (j + 1) (x(j := 0))"
      using True by (subst clear_x.simps) simp
    also have "\<dots> = (max (j + 1) (N + 1), \<lambda>m. if j + 1 \<le> m \<and> m \<le> N then 0 else (x(j := 0)) m)"
      using "1.IH" [OF True] .
    also have "\<dots> = (max j (N + 1), \<lambda>m. if j \<le> m \<and> m \<le> N then 0 else x m)"
      using True by (auto simp: fun_eq_iff)
    finally show ?thesis .
  next
    case False
    then show ?thesis by (subst clear_x.simps) (auto simp: fun_eq_iff)
  qed
qed

lemma distance0_loop_eq:
  "distance0_loop N vr tlt mns crb z i j d =
     (max j (N + 1),
      d + (\<Sum>m = j..N. (z (cell N i m) - tlt m - mns (cell N 0 m) - crb (cell N 0 m))\<^sup>2
                          / vr (cell N 0 m)))"
proof (induction N vr tlt mns crb z i j d rule: distance0_loop.induct)
  case (1 N vr tlt mns crb z i j d)
  show ?case
  proof (cases "j \<le> N")
    case True
    show ?thesis
      using True "1.IH" [OF True refl]
      by (subst distance0_loop.simps) (simp add: Let_def sum.atLeast_Suc_atMost power2_eq_square max_def)
  next
    case False
    then show ?thesis by (subst distance0_loop.simps) simp
  qed
qed

lemma distance_loop_eq:
  "distance_loop N vr tlt mns crb z i k j d =
     (max j (N + 1),
      d + (\<Sum>m = j..N. (z (cell N i m) - tlt m - mns (cell N k m) - crb (cell N k m))\<^sup>2
                          / vr (cell N k m)))"
proof (induction N vr tlt mns crb z i k j d rule: distance_loop.induct)
  case (1 N vr tlt mns crb z i k j d)
  show ?case
  proof (cases "j \<le> N")
    case True
    have swap: "z (cell N i j) - tlt j - crb (cell N k j) - mns (cell N k j)
                  = z (cell N i j) - tlt j - mns (cell N k j) - crb (cell N k j)"
      by simp
    show ?thesis
      using True "1.IH" [OF True refl]
      by (subst distance_loop.simps)
         (simp add: Let_def sum.atLeast_Suc_atMost power2_eq_square max_def swap)
  next
    case False
    then show ?thesis by (subst distance_loop.simps) simp
  qed
qed


lemma add_x_eq:
  "add_x N tlt crb z i k fk j x =
     (max j (N + 1),
      \<lambda>m. if j \<le> m \<and> m \<le> N
          then x m + (z (cell N i m) - tlt m - crb (cell N k m)) * fk else x m)"
proof (induction N tlt crb z i k fk j x rule: add_x.induct)
  case (1 N tlt crb z i k fk j x)
  let ?t = "\<lambda>m. (z (cell N i m) - tlt m - crb (cell N k m)) * fk"
  show ?case
  proof (cases "j \<le> N")
    case True
    have "add_x N tlt crb z i k fk j x = add_x N tlt crb z i k fk (j + 1) (x(j := x j + ?t j))"
      using True by (subst add_x.simps) simp
    also have "\<dots> = (max (j + 1) (N + 1),
        \<lambda>m. if j + 1 \<le> m \<and> m \<le> N then (x(j := x j + ?t j)) m + ?t m
            else (x(j := x j + ?t j)) m)"
      using "1.IH" [OF True] .
    also have "\<dots> = (max j (N + 1), \<lambda>m. if j \<le> m \<and> m \<le> N then x m + ?t m else x m)"
      using True by (auto simp: fun_eq_iff)
    finally show ?thesis .
  next
    case False
    then show ?thesis by (subst add_x.simps) (auto simp: fun_eq_iff)
  qed
qed

lemma divide_x_eq:
  "divide_x N x den i j z =
     (max j (N + 1),
      \<lambda>a. if cell N i j \<le> a \<and> a \<le> cell N i N then x (a - cell N i 0) / den else z a)"
proof (induction N x den i j z rule: divide_x.induct)
  case (1 N x den i j z)
  show ?case
  proof (cases "j \<le> N")
    case True
    have "divide_x N x den i j z = divide_x N x den i (j + 1) (z(cell N i j := x j / den))"
      using True by (subst divide_x.simps) simp
    also have "\<dots> = (max (j + 1) (N + 1),
        \<lambda>a. if cell N i (j + 1) \<le> a \<and> a \<le> cell N i N then x (a - cell N i 0) / den
            else (z(cell N i j := x j / den)) a)"
      using "1.IH" [OF True] .
    also have "\<dots> = (max j (N + 1),
        \<lambda>a. if cell N i j \<le> a \<and> a \<le> cell N i N then x (a - cell N i 0) / den else z a)"
      using True by (auto simp: fun_eq_iff cell_def)
    finally show ?thesis .
  next
    case False
    then show ?thesis by (subst divide_x.simps) (auto simp: fun_eq_iff cell_def)
  qed
qed

lemma first_codeword_eq:
  "first_codeword N vr pb tlt mns crb z i =
     (N + 1, spec_distance N vr tlt mns crb z i 0, spec_fk N vr pb tlt mns crb z i 0)"
proof -
  let ?r = "\<lambda>m. z (cell N i m) - tlt m - mns (cell N 0 m) - crb (cell N 0 m)"
  let ?D = "?r 0 * ?r 0 / vr (cell N 0 0) + (\<Sum>m = 1..N. (?r m)\<^sup>2 / vr (cell N 0 m))"
  have d0: "z (cell N i 0) - mns (cell N 0 0) - crb (cell N 0 0) - tlt 0 = ?r 0"
    by simp
  have run: "first_codeword N vr pb tlt mns crb z i = (max 1 (N + 1), ?D, exp (- ?D / 2) * pb 0)"
    by (simp only: first_codeword_def distance0_loop_eq Let_def prod.case d0)
  have D: "?D = spec_distance N vr tlt mns crb z i 0"
    by (simp add: spec_distance_def sum.atLeast_Suc_atMost [of 0 N] power2_eq_square)
  have j: "max 1 (N + 1) = N + 1"
    by simp
  show ?thesis
    by (simp only: run D j spec_fk_def)
qed

lemma codeword_eq:
  "codeword N vr pb tlt mns crb z i k =
     (N + 1, spec_distance N vr tlt mns crb z i k, spec_fk N vr pb tlt mns crb z i k)"
proof -
  let ?r = "\<lambda>m. z (cell N i m) - tlt m - mns (cell N k m) - crb (cell N k m)"
  let ?D = "?r 0 * ?r 0 / vr (cell N k 0) + (\<Sum>m = 1..N. (?r m)\<^sup>2 / vr (cell N k m))"
  have d0: "z (cell N i 0) - mns (cell N k 0) - crb (cell N k 0) - tlt 0 = ?r 0"
    by simp
  have run: "codeword N vr pb tlt mns crb z i k = (max 1 (N + 1), ?D, exp (- ?D / 2) * pb k)"
    by (simp only: codeword_def distance_loop_eq Let_def prod.case d0)
  have D: "?D = spec_distance N vr tlt mns crb z i k"
    by (simp add: spec_distance_def sum.atLeast_Suc_atMost [of 0 N] power2_eq_square)
  have j: "max 1 (N + 1) = N + 1"
    by simp
  show ?thesis
    by (simp only: run D j spec_fk_def)
qed

lemma codewords_eq:
  "codewords N vr pb tlt mns crb nc z i k (j, x, den) =
     (if int k < nc then N + 1 else j,
      \<lambda>m. if m \<le> N
          then x m + (\<Sum>c = k..<nat nc.
                        (z (cell N i m) - tlt m - crb (cell N c m))
                          * spec_fk N vr pb tlt mns crb z i c)
          else x m,
      den + (\<Sum>c = k..<nat nc. spec_fk N vr pb tlt mns crb z i c))"
proof (induction "nat nc - k" arbitrary: k j x den)
  case 0
  then have "\<not> int k < nc" by linarith
  then show ?case by (subst codewords.simps) (auto simp: fun_eq_iff)
next
  case (Suc n)
  then have lt: "int k < nc" and n: "n = nat nc - (k + 1)" by linarith+
  have klt: "k < nat nc" using lt by linarith
  have "codewords N vr pb tlt mns crb nc z i k (j, x, den) =
          codewords N vr pb tlt mns crb nc z i (k + 1)
            (N + 1,
             \<lambda>m. if m \<le> N
                 then x m + (z (cell N i m) - tlt m - crb (cell N k m))
                              * spec_fk N vr pb tlt mns crb z i k
                 else x m,
             den + spec_fk N vr pb tlt mns crb z i k)"
    using lt by (subst codewords.simps) (simp add: codeword_eq add_x_eq)
  also have "\<dots> =
     (if int (k + 1) < nc then N + 1 else N + 1,
      \<lambda>m. if m \<le> N
          then (if m \<le> N
                then x m + (z (cell N i m) - tlt m - crb (cell N k m))
                             * spec_fk N vr pb tlt mns crb z i k
                else x m)
               + (\<Sum>c = k + 1..<nat nc.
                        (z (cell N i m) - tlt m - crb (cell N c m))
                          * spec_fk N vr pb tlt mns crb z i c)
          else (if m \<le> N
                then x m + (z (cell N i m) - tlt m - crb (cell N k m))
                             * spec_fk N vr pb tlt mns crb z i k
                else x m),
      den + spec_fk N vr pb tlt mns crb z i k
        + (\<Sum>c = k + 1..<nat nc. spec_fk N vr pb tlt mns crb z i c))"
    by (rule Suc.hyps(1) [OF n])
  also have "\<dots> =
     (if int k < nc then N + 1 else j,
      \<lambda>m. if m \<le> N
          then x m + (\<Sum>c = k..<nat nc.
                        (z (cell N i m) - tlt m - crb (cell N c m))
                          * spec_fk N vr pb tlt mns crb z i c)
          else x m,
      den + (\<Sum>c = k..<nat nc. spec_fk N vr pb tlt mns crb z i c))"
    using lt klt by (auto simp: fun_eq_iff sum.atLeast_Suc_lessThan)
  finally show ?case .
qed

lemma accumulate_eq:
  "accumulate N vr pb tlt mns crb nc z i x =
     (N + 1,
      \<lambda>m. if m \<le> N
          then (\<Sum>c = 1..<nat nc.
                  (z (cell N i m) - tlt m - crb (cell N c m)) * spec_fk N vr pb tlt mns crb z i c)
          else x m,
      spec_fk N vr pb tlt mns crb z i 0
        + (\<Sum>c = 1..<nat nc. spec_fk N vr pb tlt mns crb z i c))"
  unfolding accumulate_def clear_x_eq first_codeword_eq
  by (auto simp: codewords_eq fun_eq_iff)

lemma computed_eq:
  "computed N vr pb tlt mns crb z i k =
     (N + 1, spec_distance N vr tlt mns crb z i k, spec_fk N vr pb tlt mns crb z i k)"
  by (simp add: computed_def first_codeword_eq codeword_eq)

lemma write_back_eq:
  "write_back N tlt i (j, x, den) z =
     (if den \<noteq> 0
      then (\<lambda>a. if cell N i 0 \<le> a \<and> a \<le> cell N i N then x (a - cell N i 0) / den else z a)
      else z(cell N i j := z (cell N i j) - tlt j))"
  by (simp add: write_back_def divide_x_eq)

lemma fallback_index: "fst (accumulate N vr pb tlt mns crb nc z i x) = N + 1"
  by (simp add: accumulate_eq)

lemma spec_distance_nonneg:
  assumes "\<And>m. m \<le> N \<Longrightarrow> 0 < vr (cell N k m)"
  shows "0 \<le> spec_distance N vr tlt mns crb z i k"
  unfolding spec_distance_def
  by (rule sum_nonneg) (use assms in \<open>auto intro!: divide_nonneg_pos\<close>)

lemma spec_fk_sum_pos:
  assumes nonneg: "\<And>c. c < n \<Longrightarrow> 0 \<le> pb c"
    and pos: "k < n" "0 < pb k"
  shows "0 < (\<Sum>c = 0..<n. spec_fk N vr pb tlt mns crb z i c)"
proof -
  have "0 \<le> spec_fk N vr pb tlt mns crb z i c" if "c \<in> {0..<n}" for c
    using that nonneg [of c] by (simp add: spec_fk_def)
  moreover have "0 < spec_fk N vr pb tlt mns crb z i k"
    using pos by (simp add: spec_fk_def)
  moreover have "k \<in> {0..<n}"
    using pos by simp
  ultimately show ?thesis
    by (intro sum_pos2 [of _ k]) auto
qed

lemma den_eq_sum:
  assumes "1 \<le> nc"
  shows "spec_fk N vr pb tlt mns crb z i 0
           + (\<Sum>c = 1..<nat nc. spec_fk N vr pb tlt mns crb z i c)
         = (\<Sum>c = 0..<nat nc. spec_fk N vr pb tlt mns crb z i c)"
proof -
  have "0 < nat nc" using assms by simp
  then show ?thesis by (simp add: sum.atLeast_Suc_lessThan)
qed

lemma two_codewords: "{0..<2::nat} = {0, 1}" "{1..<2::nat} = {1}"
  by auto

text \<open>
  When \<^verbatim>\<open>den != 0\<close>, an iteration reads \<open>z\<close> only in the cells of its own frame and
  writes only there.
\<close>

lemma accumulate_own_frame:
  assumes "\<forall>m\<le>N. z (cell N i m) = z' (cell N i m)"
  shows "fst (accumulate N vr pb tlt mns crb nc z i x)
           = fst (accumulate N vr pb tlt mns crb nc z' i x') \<and>
         snd (snd (accumulate N vr pb tlt mns crb nc z i x))
           = snd (snd (accumulate N vr pb tlt mns crb nc z' i x')) \<and>
         (\<forall>m\<le>N. fst (snd (accumulate N vr pb tlt mns crb nc z i x)) m
                   = fst (snd (accumulate N vr pb tlt mns crb nc z' i x')) m)"
proof -
  have d: "spec_distance N vr tlt mns crb z i c = spec_distance N vr tlt mns crb z' i c" for c
    unfolding spec_distance_def using assms by (intro sum.cong) auto
  show ?thesis
    unfolding accumulate_eq spec_fk_def d using assms by auto
qed

lemma frame_writes_own_frame:
  assumes "snd (snd (accumulate N vr pb tlt mns crb nc z i x)) \<noteq> 0"
    and "a < cell N i 0 \<or> cell N i N < a"
  shows "fst (frame N vr pb tlt mns crb nc i (z, x)) a = z a"
  using assms by (auto simp: frame_def accumulate_eq write_back_eq)

section \<open>Rounding at the values of the examples\<close>

text \<open>
  The exponent of a real, from the powers of two around it, and with it the rounding of
  the few values that the two runs in single precision below meet.
\<close>

lemma floor_log2:
  assumes "2 powi e \<le> x" "x < 2 powi (e + 1)"
  shows "\<lfloor>log 2 x\<rfloor> = e"
proof -
  have pos: "0 < x" using assms(1) by (smt (verit) zero_less_power_int)
  have a: "(2::real) powr (real_of_int k) = 2 powi k" for k
    by (simp add: powr_real_of_int')
  have "2 powr (real_of_int e) \<le> x" "x < 2 powr (real_of_int (e + 1))"
    using assms by (simp_all only: a)
  then have "2 powr (real_of_int e) \<le> x \<and> x < 2 powr (real_of_int e + 1)"
    by simp
  moreover have "(\<lfloor>log 2 x\<rfloor> = e) = (2 powr (real_of_int e) \<le> x \<and> x < 2 powr (real_of_int e + 1))"
    using floor_log_eq_powr_iff [of x 2 e] pos by simp
  ultimately show ?thesis by blast
qed

lemma round_ieee_at:
  assumes "2 powi e \<le> \<bar>x\<bar>" "\<bar>x\<bar> < 2 powi (e + 1)" "emin \<le> e"
  shows "round_ieee p emin emax x =
     (let u = 2 powi (e - (int p - 1)); r = of_int (rne (x / u)) * u
      in if 2 powi emax \<le> \<bar>r\<bar> then (if 0 < x then PlusInf else MinusInf) else Finite r)"
proof -
  have "0 < \<bar>x\<bar>" using assms(1) by (smt (verit) zero_less_power_int)
  then have nz: "x \<noteq> 0" by simp
  have "\<lfloor>log 2 \<bar>x\<bar>\<rfloor> = e" using assms(1,2) by (rule floor_log2)
  then show ?thesis using nz assms(3) by (simp add: round_ieee_def Let_def max_def)
qed

lemma round32_one: "round32 1 = Finite 1"
  unfolding round32_def by (subst round_ieee_at [where e = 0]) (simp_all add: rne_def)

lemma round32_just_below_one: "round32 (67108863 / 67108864) = Finite 1"
  unfolding round32_def by (subst round_ieee_at [where e = "-1"]) (simp_all add: rne_def)

lemma round32_minus_2_pow_minus_26: "round32 (- (1 / 67108864)) = Finite (- (1 / 67108864))"
  unfolding round32_def by (subst round_ieee_at [where e = "-26"]) (simp_all add: rne_def)

lemma round32_2_pow_minus_52: "round32 (1 / 4503599627370496) = Finite (1 / 4503599627370496)"
  unfolding round32_def by (subst round_ieee_at [where e = "-52"]) (simp_all add: rne_def)

lemma round32_2_pow_70: "round32 (2 ^ 70) = Finite (2 ^ 70)"
  unfolding round32_def by (subst round_ieee_at [where e = 70]) (simp_all add: rne_def)

lemma round32_2_pow_138: "round32 (2 ^ 138) = PlusInf"
  unfolding round32_def by (subst round_ieee_at [where e = 138]) (simp_all add: rne_def)


lemma round32_2_pow_69: "round32 (2 ^ 69) = Finite (2 ^ 69)"
  unfolding round32_def by (subst round_ieee_at [where e = 69]) (simp_all add: rne_def)

lemma round_zero: "round32 0 = Finite 0" "round64 0 = Finite 0"
  by (simp_all add: round32_def round64_def round_ieee_def)

lemma round64_one: "round64 1 = Finite 1"
  unfolding round64_def by (subst round_ieee_at [where e = 0]) (simp_all add: rne_def)

lemmas unroll32 = f32_clear_x.simps f32_distance0_loop.simps f32_distance_loop.simps
  f32_add_x.simps f32_divide_x.simps f32_codewords.simps

section \<open>The claims\<close>

subsection \<open>Claims on the accumulation\<close>

text \<open>
  Claim C1. For a frame processed with \<open>num_codes \<ge> 1\<close>, the denominator \<^verbatim>\<open>den\<close> is
  the sum of the weights \<open>fk\<close> of all the codewords \<open>0..num_codes-1\<close>, and the
  numerator \<open>x[m]\<close> is the sum of \<open>(z[m] - tilt[m] - correction[k][m]) * fk_k\<close> over the
  codewords \<open>1..num_codes-1\<close> only: the weight of codeword 0 is computed and added to
  \<^verbatim>\<open>den\<close>, and never to \<open>x\<close>. The weights are the ones the function computes.
\<close>

theorem den_all_codewords_x_from_second:
  assumes "1 \<le> nc"
    and "accumulate N vr pb tlt mns crb nc z i x = (j, x', den)"
  shows "den = (\<Sum>c = 0..<nat nc. snd (snd (computed N vr pb tlt mns crb z i c))) \<and>
         (\<forall>m\<le>N. x' m = (\<Sum>c = 1..<nat nc.
              (z (cell N i m) - tlt m - crb (cell N c m))
                * snd (snd (computed N vr pb tlt mns crb z i c))))"
  using assms(2) den_eq_sum [OF assms(1)] unfolding accumulate_eq computed_eq by auto

theorem den_all_codewords_x_from_second_witness:
  "(1::int) \<le> 2 \<and>
   snd (snd (accumulate 1 (\<lambda>a. 1) (\<lambda>k. 1 / 2) (\<lambda>j. 1) (\<lambda>a. 2) (\<lambda>a. 0) 2 (\<lambda>a. 3) 0 (\<lambda>j. 0))) = 1 \<and>
   fst (snd (accumulate 1 (\<lambda>a. 1) (\<lambda>k. 1 / 2) (\<lambda>j. 1) (\<lambda>a. 2) (\<lambda>a. 0) 2 (\<lambda>a. 3) 0 (\<lambda>j. 0))) 0 = 1 \<and>
   fst (snd (accumulate 1 (\<lambda>a. 1) (\<lambda>k. 1 / 2) (\<lambda>j. 1) (\<lambda>a. 2) (\<lambda>a. 0) 2 (\<lambda>a. 3) 0 (\<lambda>j. 0))) 1 = 1"
proof -
  let ?a = "accumulate 1 (\<lambda>a. 1) (\<lambda>k. 1 / 2) (\<lambda>j. 1) (\<lambda>a. 2) (\<lambda>a. 0) 2 (\<lambda>a. 3) 0 (\<lambda>j. 0)"
  have h: "(1::int) \<le> 2" by simp
  have e: "?a = (fst ?a, fst (snd ?a), snd (snd ?a))" by simp
  show ?thesis
    using den_all_codewords_x_from_second [OF h e]
    by (simp add: computed_eq spec_fk_def spec_distance_def two_codewords)
qed

text \<open>
  Claim C4. After the codewords of a frame have been processed, if \<^verbatim>\<open>den != 0\<close> the
  frame is overwritten in place: \<open>z[i][m]\<close> becomes \<open>x[m] / den\<close> for every coefficient
  \<open>m\<close> in \<open>0..NUM_COEFF\<close>.
\<close>

theorem frame_overwritten_with_quotient:
  assumes "accumulate N vr pb tlt mns crb nc z i x = (j, x', den)"
    and "den \<noteq> 0"
  shows "\<forall>m\<le>N. fst (frame N vr pb tlt mns crb nc i (z, x)) (cell N i m) = x' m / den"
  using assms by (simp add: frame_def write_back_eq cell_def)

theorem frame_overwritten_with_quotient_witness:
  "snd (snd (accumulate 1 (\<lambda>a. 1) (\<lambda>k. 1 / 2) (\<lambda>j. 1) (\<lambda>a. 2) (\<lambda>a. 0) 2 (\<lambda>a. 3) 1 (\<lambda>j. 0))) = 1 \<and>
   fst (snd (accumulate 1 (\<lambda>a. 1) (\<lambda>k. 1 / 2) (\<lambda>j. 1) (\<lambda>a. 2) (\<lambda>a. 0) 2 (\<lambda>a. 3) 1 (\<lambda>j. 0))) 0 = 1 \<and>
   fst (snd (accumulate 1 (\<lambda>a. 1) (\<lambda>k. 1 / 2) (\<lambda>j. 1) (\<lambda>a. 2) (\<lambda>a. 0) 2 (\<lambda>a. 3) 1 (\<lambda>j. 0))) 1 = 1 \<and>
   fst (frame 1 (\<lambda>a. 1) (\<lambda>k. 1 / 2) (\<lambda>j. 1) (\<lambda>a. 2) (\<lambda>a. 0) 2 1 (\<lambda>a. 3, \<lambda>j. 0)) (cell 1 1 0) = 1 \<and>
   fst (frame 1 (\<lambda>a. 1) (\<lambda>k. 1 / 2) (\<lambda>j. 1) (\<lambda>a. 2) (\<lambda>a. 0) 2 1 (\<lambda>a. 3, \<lambda>j. 0)) (cell 1 1 1) = 1"
proof -
  let ?a = "accumulate 1 (\<lambda>a. 1) (\<lambda>k. 1 / 2) (\<lambda>j. 1) (\<lambda>a. 2) (\<lambda>a. 0) 2 (\<lambda>a. 3) 1 (\<lambda>j. 0)"
  have e: "?a = (fst ?a, fst (snd ?a), snd (snd ?a))" by simp
  have den: "snd (snd ?a) = 1"
    by (simp add: accumulate_eq spec_fk_def spec_distance_def two_codewords)
  have x: "fst (snd ?a) 0 = 1" "fst (snd ?a) 1 = 1"
    by (simp_all add: accumulate_eq spec_fk_def spec_distance_def two_codewords)
  have h: "snd (snd ?a) \<noteq> 0" using den by simp
  show ?thesis
    using frame_overwritten_with_quotient [OF e h] den x by simp
qed

text \<open>
  Claim C7. With a single codeword (\<open>num_codes = 1\<close>) the numerator \<open>x\<close> stays zero in
  every coefficient, so whenever \<^verbatim>\<open>den != 0\<close> the frame written back is zero in every
  coefficient.
\<close>

theorem single_codeword_frame_is_zero:
  assumes "accumulate N vr pb tlt mns crb 1 z i x = (j, x', den)"
  shows "(\<forall>m\<le>N. x' m = 0) \<and>
         (den \<noteq> 0 \<longrightarrow> (\<forall>m\<le>N. fst (frame N vr pb tlt mns crb 1 i (z, x)) (cell N i m) = 0))"
  using assms by (auto simp: accumulate_eq frame_def write_back_eq cell_def)

theorem single_codeword_frame_is_zero_witness:
  "fst (snd (accumulate 1 (\<lambda>a. 1) (\<lambda>k. 1 / 2) (\<lambda>j. 1) (\<lambda>a. 2) (\<lambda>a. 0) 1 (\<lambda>a. 3) 0 (\<lambda>j. 7))) 0 = 0 \<and>
   fst (snd (accumulate 1 (\<lambda>a. 1) (\<lambda>k. 1 / 2) (\<lambda>j. 1) (\<lambda>a. 2) (\<lambda>a. 0) 1 (\<lambda>a. 3) 0 (\<lambda>j. 7))) 1 = 0 \<and>
   snd (snd (accumulate 1 (\<lambda>a. 1) (\<lambda>k. 1 / 2) (\<lambda>j. 1) (\<lambda>a. 2) (\<lambda>a. 0) 1 (\<lambda>a. 3) 0 (\<lambda>j. 7))) = 1 / 2 \<and>
   fst (frame 1 (\<lambda>a. 1) (\<lambda>k. 1 / 2) (\<lambda>j. 1) (\<lambda>a. 2) (\<lambda>a. 0) 1 0 (\<lambda>a. 3, \<lambda>j. 7)) (cell 1 0 0) = 0 \<and>
   fst (frame 1 (\<lambda>a. 1) (\<lambda>k. 1 / 2) (\<lambda>j. 1) (\<lambda>a. 2) (\<lambda>a. 0) 1 0 (\<lambda>a. 3, \<lambda>j. 7)) (cell 1 0 1) = 0"
proof -
  let ?a = "accumulate 1 (\<lambda>a. 1) (\<lambda>k. 1 / 2) (\<lambda>j. 1) (\<lambda>a. 2) (\<lambda>a. 0) 1 (\<lambda>a. 3) 0 (\<lambda>j. 7)"
  have e: "?a = (fst ?a, fst (snd ?a), snd (snd ?a))" by simp
  have den: "snd (snd ?a) = 1 / 2"
    by (simp add: accumulate_eq spec_fk_def spec_distance_def)
  show ?thesis
    using single_codeword_frame_is_zero [OF e] den by simp
qed

subsection \<open>Claims on the distance and the weight\<close>

text \<open>
  Claim C5, as stated: for every frame \<open>z\<close> and codeword \<open>k\<close>, the distance the function
  computes is the sum over the coefficients \<open>m = 0..NUM_COEFF\<close> of
  \<open>(z[m] - tilt[m] - mean[k][m] - correction[k][m])\<^sup>2 / variance[k][m]\<close>, and the weight
  it computes is \<open>exp (- distance / 2) * prior[k]\<close>. In single precision it fails. Line
  91 subtracts the mean and then the correction, line 105 the correction and then the
  mean, and the two orders round differently. With \<open>NUM_COEFF = 1\<close>, every \<open>z\<close> equal
  to \<open>1\<close>, tilt \<open>0\<close>, and two codewords that both have mean \<open>2\<^sup>-\<^sup>2\<^sup>6\<close>, correction \<open>1\<close>
  and variance \<open>2\<^sup>-\<^sup>5\<^sup>2\<close>: at coefficient 1, line 91 rounds \<open>1 - 2\<^sup>-\<^sup>2\<^sup>6\<close> to \<open>1\<close> and gets
  the difference \<open>0\<close>, line 105 gets \<open>(1 - 1) - 2\<^sup>-\<^sup>2\<^sup>6\<close>. The function computes the
  distance \<open>0\<close> for codeword 0 and \<open>1\<close> for codeword 1, where the sum of the claim is
  one value for both, \<open>2\<close> when taken exactly.
\<close>

theorem float_distances_of_equal_codewords_differ:
  "fst (snd (f32_first_codeword 1 (\<lambda>a. Finite (1 / 2 ^ 52)) (\<lambda>k. Finite 1) (\<lambda>j. Finite 0)
               (\<lambda>a. Finite (1 / 2 ^ 26)) (\<lambda>a. Finite 1) (\<lambda>a. Finite 1) 0)) = Finite 0 \<and>
   fst (snd (f32_codeword 1 (\<lambda>a. Finite (1 / 2 ^ 52)) (\<lambda>k. Finite 1) (\<lambda>j. Finite 0)
               (\<lambda>a. Finite (1 / 2 ^ 26)) (\<lambda>a. Finite 1) (\<lambda>a. Finite 1) 0 1)) = Finite 1 \<and>
   spec_distance 1 (\<lambda>a. 1 / 2 ^ 52) (\<lambda>j. 0) (\<lambda>a. 1 / 2 ^ 26) (\<lambda>a. 1) (\<lambda>a. 1) 0 0 = 2 \<and>
   spec_distance 1 (\<lambda>a. 1 / 2 ^ 52) (\<lambda>j. 0) (\<lambda>a. 1 / 2 ^ 26) (\<lambda>a. 1) (\<lambda>a. 1) 0 1 = 2"
  by (simp add: f32_first_codeword_def f32_codeword_def unroll32 fsub_def Let_def
        round32_one round32_just_below_one round32_minus_2_pow_minus_26 round32_2_pow_minus_52 round_zero spec_distance_def power2_eq_square)

text \<open>
  Claim C5, amended: in exact (real-number) arithmetic, for every frame \<open>z\<close> and
  codeword \<open>k\<close>, the distance the function computes is the sum over the coefficients
  \<open>m = 0..NUM_COEFF\<close> of
  \<open>(z[m] - tilt[m] - mean[k][m] - correction[k][m])\<^sup>2 / variance[k][m]\<close>, and the weight
  it computes is \<open>exp (- distance / 2) * prior[k]\<close>.
\<close>

theorem distance_and_weight_formulas:
  "fst (snd (computed N vr pb tlt mns crb z i k)) =
     (\<Sum>m = 0..N. (z (cell N i m) - tlt m - mns (cell N k m) - crb (cell N k m))\<^sup>2
                     / vr (cell N k m)) \<and>
   fst (snd (computed N vr pb tlt mns crb z i k)) = spec_distance N vr tlt mns crb z i k \<and>
   snd (snd (computed N vr pb tlt mns crb z i k)) =
     exp (- fst (snd (computed N vr pb tlt mns crb z i k)) / 2) * pb k"
  by (simp add: computed_eq spec_fk_def) (simp add: spec_distance_def)

text \<open>
  Claim C9. If the variance of every codeword is strictly positive in every coefficient,
  the distance computed for every frame and every codeword \<open>k\<close> is at least zero.
\<close>

theorem distance_nonneg:
  assumes "\<forall>c m. int c < nc \<and> m \<le> N \<longrightarrow> 0 < vr (cell N c m)"
    and "int k < nc"
  shows "0 \<le> fst (snd (computed N vr pb tlt mns crb z i k))"
  using assms spec_distance_nonneg [of N vr k tlt mns crb z i]
  by (simp add: computed_eq)

theorem distance_nonneg_witness:
  "int 1 < (2::int) \<and>
   fst (snd (computed 1 (\<lambda>a. 1) (\<lambda>k. 1 / 2) (\<lambda>j. 1) (\<lambda>a. 0) (\<lambda>a. 0) (\<lambda>a. 3) 0 1)) = 8 \<and>
   0 \<le> fst (snd (computed 1 (\<lambda>a. 1) (\<lambda>k. 1 / 2) (\<lambda>j. 1) (\<lambda>a. 0) (\<lambda>a. 0) (\<lambda>a. 3) 0 1))"
proof -
  have v: "\<forall>c m. int c < 2 \<and> m \<le> 1 \<longrightarrow> (0::real) < (\<lambda>a. 1) (cell 1 c m)" by simp
  have k: "int 1 < (2::int)" by simp
  have d: "fst (snd (computed 1 (\<lambda>a. 1) (\<lambda>k. 1 / 2) (\<lambda>j. 1) (\<lambda>a. 0) (\<lambda>a. 0) (\<lambda>a. 3) 0 1)) = 8"
    by (simp add: computed_eq spec_distance_def)
  show ?thesis
    using distance_nonneg [OF v k, of "\<lambda>k. 1 / 2" "\<lambda>j. 1" "\<lambda>a. 0" "\<lambda>a. 0" "\<lambda>a. 3" 0] d
    by simp
qed

text \<open>
  In the exact model a prior can be any real, and the sign of the priors matters: with
  \<open>NUM_COEFF = 1\<close>, variances \<open>1\<close> and two codewords of priors \<open>1\<close> and \<open>-1\<close> at
  the same distance from the frame, \<^verbatim>\<open>den\<close> is \<open>0\<close> and the branch for
  \<^verbatim>\<open>den == 0\<close> is taken.
\<close>

lemma den_zero_with_negative_prior:
  "int 0 < (2::int) \<and> (0::real) < (\<lambda>k. if k = 0 then 1 else - 1) (0::nat) \<and>
   (0::real) < (\<lambda>a. 1) (cell 1 0 0) \<and> (0::real) < (\<lambda>a. 1) (cell 1 0 1) \<and>
   (0::real) < (\<lambda>a. 1) (cell 1 1 0) \<and> (0::real) < (\<lambda>a. 1) (cell 1 1 1) \<and>
   snd (snd (accumulate 1 (\<lambda>a. 1) (\<lambda>k. if k = 0 then 1 else - 1) (\<lambda>j. 1) (\<lambda>a. 0) (\<lambda>a. 0) 2
               (\<lambda>a. 1) 0 (\<lambda>j. 0))) = 0 \<and>
   fst (frame 1 (\<lambda>a. 1) (\<lambda>k. if k = 0 then 1 else - 1) (\<lambda>j. 1) (\<lambda>a. 0) (\<lambda>a. 0) 2 0
          (\<lambda>a. 1, \<lambda>j. 0)) = (\<lambda>a. if a = 2 then 0 else 1)"
  by (auto simp: frame_def accumulate_eq write_back_eq spec_fk_def spec_distance_def
        two_codewords cell_def fun_eq_iff)

text \<open>
  Claim C10, as stated: in exact arithmetic, if at least one codeword has a strictly
  positive prior and all variances are strictly positive, then \<^verbatim>\<open>den\<close> is strictly
  positive and the branch for \<^verbatim>\<open>den == 0\<close> is unreachable; it can only be taken under
  floating-point underflow. The last part fails: in single precision the branch is also
  taken after an overflow, with no result rounded to zero. With \<open>NUM_COEFF = 1\<close>, one
  codeword of prior \<open>1\<close>, variance \<open>1\<close>, mean and correction \<open>0\<close>, tilt \<open>2\<^sup>6\<^sup>9\<close> and
  every \<open>z\<close> equal to \<open>2\<^sup>7\<^sup>0\<close>: each difference is \<open>2\<^sup>6\<^sup>9\<close> exactly, its square
  \<open>2\<^sup>1\<^sup>3\<^sup>8\<close> overflows to \<open>+\<infinity>\<close>, the distance is \<open>+\<infinity>\<close>, \<open>exp (-\<infinity>)\<close> is \<open>0\<close>
  exactly, so \<^verbatim>\<open>fk\<close> and \<^verbatim>\<open>den\<close> are \<open>0\<close> and the frame goes through the branch
  for \<^verbatim>\<open>den == 0\<close>, which changes offset \<open>2\<close>.
\<close>

theorem den_zero_by_overflow:
  "f32_first_codeword 1 (\<lambda>a. Finite 1) (\<lambda>k. Finite 1) (\<lambda>j. Finite (2 ^ 69)) (\<lambda>a. Finite 0)
     (\<lambda>a. Finite 0) (\<lambda>a. Finite (2 ^ 70)) 0 = (2, PlusInf, Finite 0) \<and>
   f32_accumulate 1 (\<lambda>a. Finite 1) (\<lambda>k. Finite 1) (\<lambda>j. Finite (2 ^ 69)) (\<lambda>a. Finite 0)
     (\<lambda>a. Finite 0) 1 (\<lambda>a. Finite (2 ^ 70)) 0 (\<lambda>j. Finite 0) = (2, (\<lambda>j. Finite 0), Finite 0) \<and>
   fst (f32_frame 1 (\<lambda>a. Finite 1) (\<lambda>k. Finite 1) (\<lambda>j. Finite (2 ^ 69)) (\<lambda>a. Finite 0)
          (\<lambda>a. Finite 0) 1 0 (\<lambda>a. Finite (2 ^ 70), \<lambda>j. Finite 0))
     = (\<lambda>a. Finite (2 ^ 70))(2 := Finite (2 ^ 69))"
  by (simp add: f32_frame_def f32_write_back_def f32_accumulate_def f32_first_codeword_def
        f32_fk_def unroll32 fsub_def Let_def round32_2_pow_70 [simplified] round32_2_pow_138 [simplified]
        round32_2_pow_69 [simplified] round_zero cell_def fun_eq_iff)

text \<open>
  Claim C10, amended: in exact (real-number) arithmetic, for every frame, if no codeword
  has a negative prior, at least one has a strictly positive prior and all variances
  are strictly positive, then \<^verbatim>\<open>den\<close>, the sum of \<open>exp (- distance_k / 2) * prior[k]\<close>
  over the codewords, is strictly positive, so the branch for \<^verbatim>\<open>den == 0\<close> is
  unreachable in exact arithmetic: the frame is written by the division of lines 118-119.
\<close>

theorem den_positive:
  assumes "\<forall>c. int c < nc \<longrightarrow> 0 \<le> pb c"
    and "int k < nc" and "0 < pb k"
    and "\<forall>c m. int c < nc \<and> m \<le> N \<longrightarrow> 0 < vr (cell N c m)"
    and "accumulate N vr pb tlt mns crb nc z i x = (j, x', den)"
  shows "den = (\<Sum>c = 0..<nat nc. exp (- spec_distance N vr tlt mns crb z i c / 2) * pb c) \<and>
         0 < den \<and>
         fst (frame N vr pb tlt mns crb nc i (z, x)) = snd (divide_x N x' den i 0 z)"
proof -
  have nc: "1 \<le> nc" using assms(2) by simp
  have den: "den = (\<Sum>c = 0..<nat nc. spec_fk N vr pb tlt mns crb z i c)"
    using assms(5) den_eq_sum [OF nc] unfolding accumulate_eq by auto
  have "0 < (\<Sum>c = 0..<nat nc. spec_fk N vr pb tlt mns crb z i c)"
    using assms(1,2,3) by (intro spec_fk_sum_pos [of "nat nc" pb k]) auto
  then have pos: "0 < den" using den by simp
  then have "fst (frame N vr pb tlt mns crb nc i (z, x)) = snd (divide_x N x' den i 0 z)"
    using assms(5) by (simp add: frame_def write_back_def)
  with den pos show ?thesis by (simp add: spec_fk_def)
qed

theorem den_positive_witness:
  "int 1 < (2::int) \<and> (0::real) < 1 / 2 \<and>
   snd (snd (accumulate 1 (\<lambda>a. 1) (\<lambda>k. 1 / 2) (\<lambda>j. 1) (\<lambda>a. 2) (\<lambda>a. 0) 2 (\<lambda>a. 3) 0 (\<lambda>j. 0))) = 1 \<and>
   0 < snd (snd (accumulate 1 (\<lambda>a. 1) (\<lambda>k. 1 / 2) (\<lambda>j. 1) (\<lambda>a. 2) (\<lambda>a. 0) 2 (\<lambda>a. 3) 0 (\<lambda>j. 0)))"
proof -
  let ?a = "accumulate 1 (\<lambda>a. 1) (\<lambda>k. 1 / 2) (\<lambda>j. 1) (\<lambda>a. 2) (\<lambda>a. 0) 2 (\<lambda>a. 3) 0 (\<lambda>j. 0)"
  have p: "\<forall>c. int c < 2 \<longrightarrow> (0::real) \<le> (\<lambda>k. 1 / 2) c" by simp
  have k: "int 1 < (2::int)" by simp
  have q: "(0::real) < (\<lambda>k. 1 / 2) (1::nat)" by simp
  have v: "\<forall>c m. int c < 2 \<and> m \<le> 1 \<longrightarrow> (0::real) < (\<lambda>a. 1) (cell 1 c m)" by simp
  have e: "?a = (fst ?a, fst (snd ?a), snd (snd ?a))" by simp
  show ?thesis
    using den_positive [OF p k q v e] by (simp add: spec_distance_def two_codewords)
qed

subsection \<open>Claims on the wrapper and on the noise vector\<close>

text \<open>
  Claim C6. For every frame sequence, of any length, and every state of the model: if
  normalization is disabled (\<^verbatim>\<open>run_cdcn\<close> is zero) or the model has not completed its
  first initialization (\<^verbatim>\<open>firstcall\<close> is set), the wrapper returns with every frame
  equal to its input. The wrapper has no error path: it returns \<open>z\<close> itself.
\<close>

theorem wrapper_disabled_is_no_op:
  assumes "run_cdcn c = 0 \<or> firstcall c \<noteq> 0"
  shows "block_cdcn_norm N z nf c = z"
  using assms by (auto simp: block_cdcn_norm_def)

theorem wrapper_disabled_is_no_op_witness:
  "block_cdcn_norm 12 (\<lambda>a. 5) 3
     \<lparr>run_cdcn = 0, firstcall = 0, variance = \<lambda>a. 1, probs = \<lambda>k. 1, tilt = \<lambda>j. 1,
      noise = \<lambda>j. 0, means = \<lambda>a. 0, corrbook = \<lambda>a. 0, num_codes = 1\<rparr> = (\<lambda>a. 5) \<and>
   block_cdcn_norm 12 (\<lambda>a. 5) 3
     \<lparr>run_cdcn = 1, firstcall = 1, variance = \<lambda>a. 1, probs = \<lambda>k. 1, tilt = \<lambda>j. 1,
      noise = \<lambda>j. 0, means = \<lambda>a. 0, corrbook = \<lambda>a. 0, num_codes = 1\<rparr> = (\<lambda>a. 5)"
proof -
  let ?off = "\<lparr>run_cdcn = 0, firstcall = 0, variance = \<lambda>a. 1, probs = \<lambda>k. 1, tilt = \<lambda>j. 1,
      noise = \<lambda>j. 0, means = \<lambda>a. 0, corrbook = \<lambda>a. 0, num_codes = (1::int)\<rparr>"
  let ?fresh = "\<lparr>run_cdcn = 1, firstcall = 1, variance = \<lambda>a. 1, probs = \<lambda>k. 1,
      tilt = \<lambda>j. 1, noise = \<lambda>j. 0, means = \<lambda>a. 0, corrbook = \<lambda>a. 0, num_codes = (1::int)\<rparr>"
  have a: "run_cdcn ?off = 0 \<or> firstcall ?off \<noteq> 0" by simp
  have b: "run_cdcn ?fresh = 0 \<or> firstcall ?fresh \<noteq> 0" by simp
  show ?thesis
    using wrapper_disabled_is_no_op [OF a, of 12 "\<lambda>a. 5" 3]
      wrapper_disabled_is_no_op [OF b, of 12 "\<lambda>a. 5" 3]
    by simp
qed

text \<open>
  Claim C8. Two calls of the block normalizer on inputs that differ only in the noise
  vector leave the same frames: the noise vector is passed along and never read. The
  same holds through the wrapper, for two structures that differ only in \<^verbatim>\<open>noise\<close>.
\<close>

theorem noise_not_consumed:
  "block_actual_cdcn_norm N vr pb tlt noise1 mns crb nc z nf =
     block_actual_cdcn_norm N vr pb tlt noise2 mns crb nc z nf \<and>
   block_cdcn_norm N z nf (c\<lparr>noise := noise1\<rparr>) = block_cdcn_norm N z nf (c\<lparr>noise := noise2\<rparr>)"
  by (simp add: block_actual_cdcn_norm_def block_cdcn_norm_def)

subsection \<open>Claims that the branch for a zero denominator breaks\<close>

text \<open>
  Claim C2. For a frame whose \<^verbatim>\<open>den\<close> is zero, the fallback branch should use only
  indices within \<open>0..NUM_COEFF\<close> on the frame vector. The function does not: the
  branch is the single statement \<^verbatim>\<open>z[i][j] -= tilt[j]\<close> with the \<open>j\<close> the loops left,
  which is \<open>NUM_COEFF + 1\<close> (lemma \<open>fallback_index\<close>). Evaluated with
  \<open>NUM_COEFF = 12\<close>, one codeword of prior \<open>0\<close> and one frame of thirteen fives:
  \<open>j\<close> is \<open>13\<close>, \<^verbatim>\<open>den\<close> is \<open>0\<close>, and the call changes offset \<open>13\<close> from the start of
  \<open>z\<close>, the float after the end of the frame, by the float after the end of \<^verbatim>\<open>tilt\<close>;
  the thirteen cells of the frame keep their values.
\<close>

theorem fallback_index_past_the_frame:
  "fst (accumulate 12 (\<lambda>a. 1) (\<lambda>k. 0) (\<lambda>j. 1) (\<lambda>a. 0) (\<lambda>a. 0) 1 (\<lambda>a. 5) 0 (\<lambda>j. 0)) = 13 \<and>
   snd (snd (accumulate 12 (\<lambda>a. 1) (\<lambda>k. 0) (\<lambda>j. 1) (\<lambda>a. 0) (\<lambda>a. 0) 1 (\<lambda>a. 5) 0 (\<lambda>j. 0))) = 0 \<and>
   cell 12 0 13 = 13 \<and>
   block_actual_cdcn_norm 12 (\<lambda>a. 1) (\<lambda>k. 0) (\<lambda>j. 1) (\<lambda>j. 0) (\<lambda>a. 0) (\<lambda>a. 0) 1 (\<lambda>a. 5) 1
     = (\<lambda>a. 5)(13 := 5 - 1)"
  by (simp add: block_actual_cdcn_norm_def frames.simps frame_def accumulate_eq write_back_eq
        spec_fk_def cell_def)

text \<open>
  Claim C3. The processing of frame \<open>i\<close> should read and write frame \<open>i\<close> only. When
  \<^verbatim>\<open>den\<close> is zero it does not: the statement \<^verbatim>\<open>z[i][j] -= tilt[j]\<close> with
  \<open>j = NUM_COEFF + 1\<close> reads and writes \<open>z[i][NUM_COEFF + 1]\<close>, which in the row layout
  is \<open>z[i+1][0]\<close>. Evaluated with \<open>NUM_COEFF = 12\<close>, one codeword of prior \<open>0\<close> and
  two frames of thirteen fives: the iteration for frame 0 turns the first coefficient of
  frame 1 into \<open>4\<close>, and after the call frame 1 holds that \<open>4\<close>. (With \<^verbatim>\<open>den != 0\<close>
  the iteration is local: lemmas \<open>accumulate_own_frame\<close> and \<open>frame_writes_own_frame\<close>.)
\<close>

theorem fallback_writes_next_frame:
  "cell 12 1 0 = 13 \<and>
   fst (frame 12 (\<lambda>a. 1) (\<lambda>k. 0) (\<lambda>j. 1) (\<lambda>a. 0) (\<lambda>a. 0) 1 0 (\<lambda>a. 5, \<lambda>j. 0)) (cell 12 1 0) = 4 \<and>
   block_actual_cdcn_norm 12 (\<lambda>a. 1) (\<lambda>k. 0) (\<lambda>j. 1) (\<lambda>j. 0) (\<lambda>a. 0) (\<lambda>a. 0) 1 (\<lambda>a. 5) 2
     = (\<lambda>a. if a = 13 \<or> a = 26 then 4 else 5)"
  by (auto simp: block_actual_cdcn_norm_def frames.simps frame_def accumulate_eq write_back_eq
        spec_fk_def cell_def fun_eq_iff)

end
